theory Spec2Isabelle
  imports Complex_Main
begin

section \<open>Monte Carlo valuation of a European call (Monte\_Carlo\_Valuation.py)\<close>

text \<open>
  The script simulates geometric Brownian motion paths (lines 28 to 52) and evaluates the
  discounted call payoff and the profit probability (lines 54 to 59). This theory embeds
  those lines. The date axis (lines 38 to 40) and the plotting (lines 61 to 125) do not feed
  the numbers and are left out.

  Numbers. The script computes with IEEE doubles. Here a double is a real number, or one of
  the three special values an operation yields where the reals give none: not-a-number and
  the two infinities. Rounding, overflow, underflow and the sign of zero are not modelled:
  every finite operation is exact. Memory limits are not modelled either.
\<close>

subsection \<open>Floating-point values\<close>

datatype pyfloat = Fin real | PInf | NInf | NaN

fun fneg :: "pyfloat \<Rightarrow> pyfloat" where
  "fneg (Fin a) = Fin (- a)"
| "fneg PInf = NInf"
| "fneg NInf = PInf"
| "fneg NaN = NaN"

fun fadd :: "pyfloat \<Rightarrow> pyfloat \<Rightarrow> pyfloat" where
  "fadd (Fin a) (Fin b) = Fin (a + b)"
| "fadd NaN y = NaN"
| "fadd x NaN = NaN"
| "fadd PInf NInf = NaN"
| "fadd NInf PInf = NaN"
| "fadd PInf y = PInf"
| "fadd x PInf = PInf"
| "fadd NInf y = NInf"
| "fadd x NInf = NInf"

definition fsub :: "pyfloat \<Rightarrow> pyfloat \<Rightarrow> pyfloat" where
  "fsub x y = fadd x (fneg y)"

fun fsgn :: "pyfloat \<Rightarrow> real" where
  "fsgn (Fin a) = sgn a"
| "fsgn PInf = 1"
| "fsgn NInf = - 1"
| "fsgn NaN = 0"

fun fmul :: "pyfloat \<Rightarrow> pyfloat \<Rightarrow> pyfloat" where
  "fmul (Fin a) (Fin b) = Fin (a * b)"
| "fmul NaN y = NaN"
| "fmul x NaN = NaN"
| "fmul x y =
     (if fsgn x * fsgn y = 0 then NaN else if 0 < fsgn x * fsgn y then PInf else NInf)"

text \<open>Division of a double by a Python or NumPy integer converted to a double (the only
  divisors of lines 57 and 58). NumPy scalars do not raise on a zero divisor: they give
  not-a-number for 0/0 and an infinity otherwise.\<close>

fun fdiv :: "pyfloat \<Rightarrow> real \<Rightarrow> pyfloat" where
  "fdiv (Fin a) b =
     (if b \<noteq> 0 then Fin (a / b) else if a = 0 then NaN else if 0 < a then PInf else NInf)"
| "fdiv PInf b = (if b < 0 then NInf else PInf)"
| "fdiv NInf b = (if b < 0 then PInf else NInf)"
| "fdiv NaN b = NaN"

fun fexp :: "pyfloat \<Rightarrow> pyfloat" where
  "fexp (Fin a) = Fin (exp a)"
| "fexp PInf = PInf"
| "fexp NInf = Fin 0"
| "fexp NaN = NaN"

text \<open>\<^verbatim>\<open>np.sqrt\<close> of a negative double is not-a-number (with a warning, no exception).\<close>

definition np_sqrt :: "real \<Rightarrow> pyfloat" where
  "np_sqrt a = (if a < 0 then NaN else Fin (sqrt a))"

text \<open>\<^verbatim>\<open>np.maximum\<close> propagates not-a-number.\<close>

fun np_maximum :: "pyfloat \<Rightarrow> pyfloat \<Rightarrow> pyfloat" where
  "np_maximum (Fin a) (Fin b) = Fin (max a b)"
| "np_maximum NaN y = NaN"
| "np_maximum x NaN = NaN"
| "np_maximum PInf y = PInf"
| "np_maximum x PInf = PInf"
| "np_maximum NInf y = y"
| "np_maximum x NInf = x"

text \<open>The comparison \<^verbatim>\<open>x > y\<close>: false whenever an operand is not-a-number.\<close>

fun fgt :: "pyfloat \<Rightarrow> pyfloat \<Rightarrow> bool" where
  "fgt (Fin a) (Fin b) = (b < a)"
| "fgt NaN y = False"
| "fgt x NaN = False"
| "fgt x PInf = False"
| "fgt NInf y = False"
| "fgt PInf y = True"
| "fgt x NInf = True"

primrec np_sum :: "pyfloat list \<Rightarrow> pyfloat" where
  "np_sum [] = Fin 0"
| "np_sum (x # xs) = fadd x (np_sum xs)"

text \<open>\<^verbatim>\<open>np.mean\<close>: the sum divided by the number of entries; not-a-number for an empty
  array.\<close>

definition np_mean :: "pyfloat list \<Rightarrow> pyfloat" where
  "np_mean xs = fdiv (np_sum xs) (real (length xs))"

subsection \<open>Parameters (lines 29 to 36)\<close>

record params =
  S0 :: real
  K :: real
  T :: real
  r :: real
  sigma :: real
  num_simulations :: int
  num_steps :: int

text \<open>The values the script is shipped with.\<close>

definition aapl :: params where
  "aapl = \<lparr>S0 = 255.78, K = 265.00, T = 1.0, r = 0.041, sigma = 0.28,
            num_simulations = 10000, num_steps = 252\<rparr>"

datatype py_error = ZeroDivisionError | ValueError

text \<open>Line 36, \<^verbatim>\<open>dt = T / num_steps\<close>: a Python float divided by a Python int, which
  raises on zero.\<close>

definition dt :: "params \<Rightarrow> py_error + real" where
  "dt p = (if num_steps p = 0 then Inl ZeroDivisionError
           else Inr (T p / real_of_int (num_steps p)))"

subsection \<open>Arrays\<close>

type_synonym matrix = "pyfloat list list"

text \<open>Line 44, \<^verbatim>\<open>np.random.standard_normal((num_simulations, num_steps))\<close>: the generator
  is a source \<open>\<omega>\<close> of draws, one per row and column; a negative dimension raises
  \<^verbatim>\<open>ValueError\<close>.\<close>

definition standard_normal :: "(nat \<Rightarrow> nat \<Rightarrow> real) \<Rightarrow> int \<Rightarrow> int \<Rightarrow> py_error + real list list" where
  "standard_normal \<omega> n m =
     (if n < 0 \<or> m < 0 then Inl ValueError
      else Inr (map (\<lambda>i. map (\<lambda>j. \<omega> i j) [0..<nat m]) [0..<nat n]))"

definition np_zeros :: "nat \<Rightarrow> nat \<Rightarrow> matrix" where
  "np_zeros n m = replicate n (replicate m (Fin 0))"

text \<open>\<^verbatim>\<open>A[:, j]\<close>, read.\<close>

definition col :: "'a list list \<Rightarrow> nat \<Rightarrow> 'a list" where
  "col A j = map (\<lambda>row. row ! j) A"

text \<open>\<^verbatim>\<open>A[:, j] = x\<close> for a scalar \<open>x\<close>, and \<^verbatim>\<open>A[:, j] = v\<close> for a vector with one entry
  per row.\<close>

definition set_col_scalar :: "matrix \<Rightarrow> nat \<Rightarrow> pyfloat \<Rightarrow> matrix" where
  "set_col_scalar A j x = map (\<lambda>row. row[j := x]) A"

definition set_col :: "matrix \<Rightarrow> nat \<Rightarrow> pyfloat list \<Rightarrow> matrix" where
  "set_col A j v = map (\<lambda>(row, x). row[j := x]) (zip A v)"

subsection \<open>The simulation (lines 44 to 52)\<close>

text \<open>Lines 45 and 46.\<close>

definition init_paths :: "params \<Rightarrow> matrix" where
  "init_paths p =
     set_col_scalar (np_zeros (nat (num_simulations p)) (nat (num_steps p + 1))) 0 (Fin (S0 p))"

text \<open>The body of the loop, lines 50 to 52, for one \<open>t\<close>.\<close>

definition path_step :: "params \<Rightarrow> real \<Rightarrow> real list list \<Rightarrow> matrix \<Rightarrow> nat \<Rightarrow> matrix" where
  "path_step p d Z S t =
     (let drift = (r p - 0.5 * (sigma p)\<^sup>2) * d;
          diffusion = map (\<lambda>z. fmul (fmul (Fin (sigma p)) (np_sqrt d)) (Fin z)) (col Z (t - 1))
      in set_col S t
           (map (\<lambda>(s, x). fmul s (fexp (fadd (Fin drift) x))) (zip (col S (t - 1)) diffusion)))"

text \<open>The loop of line 49 over a list of values of \<open>t\<close>.\<close>

fun path_loop :: "params \<Rightarrow> real \<Rightarrow> real list list \<Rightarrow> nat list \<Rightarrow> matrix \<Rightarrow> matrix" where
  "path_loop p d Z [] S = S"
| "path_loop p d Z (t # ts) S = path_loop p d Z ts (path_step p d Z S t)"

definition simulate :: "params \<Rightarrow> (nat \<Rightarrow> nat \<Rightarrow> real) \<Rightarrow> py_error + matrix" where
  "simulate p \<omega> =
     (case dt p of
        Inl e \<Rightarrow> Inl e
      | Inr d \<Rightarrow>
          (case standard_normal \<omega> (num_simulations p) (num_steps p) of
             Inl e \<Rightarrow> Inl e
           | Inr Z \<Rightarrow> Inr (path_loop p d Z [1..<nat (num_steps p + 1)] (init_paths p))))"

subsection \<open>The results (lines 55 to 59)\<close>

text \<open>Line 55, \<^verbatim>\<open>S[:, -1]\<close>: the last entry of every row (a row has \<open>num_steps + 1\<close>
  entries, never none).\<close>

definition terminal :: "matrix \<Rightarrow> pyfloat list" where
  "terminal S = map (\<lambda>row. row ! (length row - 1)) S"

definition payoffs :: "params \<Rightarrow> pyfloat list \<Rightarrow> pyfloat list" where
  "payoffs p S_T = map (\<lambda>s. np_maximum (fsub s (Fin (K p))) (Fin 0)) S_T"

definition option_price :: "params \<Rightarrow> pyfloat list \<Rightarrow> pyfloat" where
  "option_price p S_T = fmul (np_mean (payoffs p S_T)) (Fin (exp (- r p * T p)))"

text \<open>\<^verbatim>\<open>np.sum(S_T > K)\<close>: the number of entries above the strike.\<close>

definition count_gt :: "pyfloat list \<Rightarrow> real \<Rightarrow> nat" where
  "count_gt S_T k = length (filter (\<lambda>s. fgt s (Fin k)) S_T)"

definition prob_profit :: "params \<Rightarrow> pyfloat list \<Rightarrow> pyfloat" where
  "prob_profit p S_T =
     fmul (fdiv (Fin (real (count_gt S_T (K p)))) (real_of_int (num_simulations p))) (Fin 100)"

definition prob_loss :: "params \<Rightarrow> pyfloat list \<Rightarrow> pyfloat" where
  "prob_loss p S_T = fsub (Fin 100) (prob_profit p S_T)"

record outputs =
  out_S :: matrix
  out_option_price :: pyfloat
  out_prob_profit :: pyfloat
  out_prob_loss :: pyfloat

text \<open>Lines 36 to 59 as one function of the parameters and the random source.\<close>

definition run :: "params \<Rightarrow> (nat \<Rightarrow> nat \<Rightarrow> real) \<Rightarrow> py_error + outputs" where
  "run p \<omega> =
     (case simulate p \<omega> of
        Inl e \<Rightarrow> Inl e
      | Inr S \<Rightarrow>
          Inr \<lparr>out_S = S,
               out_option_price = option_price p (terminal S),
               out_prob_profit = prob_profit p (terminal S),
               out_prob_loss = prob_loss p (terminal S)\<rparr>)"

subsection \<open>Closed forms of the loop, used to state its invariant\<close>

text \<open>The value the loop stores for one path after \<open>t\<close> steps, given the step size \<open>d\<close>
  and the path's draws \<open>z\<close>: as a double, and as a real number for \<open>d\<close> not negative.\<close>

fun fpath :: "params \<Rightarrow> real \<Rightarrow> (nat \<Rightarrow> real) \<Rightarrow> nat \<Rightarrow> pyfloat" where
  "fpath p d z 0 = Fin (S0 p)"
| "fpath p d z (Suc t) =
     fmul (fpath p d z t)
       (fexp (fadd (Fin ((r p - 0.5 * (sigma p)\<^sup>2) * d))
                (fmul (fmul (Fin (sigma p)) (np_sqrt d)) (Fin (z t)))))"

fun gbm_path :: "params \<Rightarrow> real \<Rightarrow> (nat \<Rightarrow> real) \<Rightarrow> nat \<Rightarrow> real" where
  "gbm_path p d z 0 = S0 p"
| "gbm_path p d z (Suc t) =
     gbm_path p d z t * exp ((r p - 0.5 * (sigma p)\<^sup>2) * d + sigma p * sqrt d * z t)"

text \<open>The matrix after the steps \<open>1, \<dots>, k\<close>: \<open>n\<close> rows of \<open>m\<close> entries, the columns up to
  \<open>k\<close> filled, the others still zero.\<close>

definition paths_upto :: "params \<Rightarrow> real \<Rightarrow> (nat \<Rightarrow> nat \<Rightarrow> real) \<Rightarrow> nat \<Rightarrow> nat \<Rightarrow> nat \<Rightarrow> matrix" where
  "paths_upto p d \<omega> n m k =
     map (\<lambda>i. map (\<lambda>t. if t \<le> k then fpath p d (\<omega> i) t else Fin 0) [0..<m]) [0..<n]"

subsection \<open>The parameters the specification calls invalid\<close>


subsection \<open>Concrete inputs\<close>

definition no_shocks :: "nat \<Rightarrow> nat \<Rightarrow> real" where
  "no_shocks i j = 0"

definition unit_shocks :: "nat \<Rightarrow> nat \<Rightarrow> real" where
  "unit_shocks i j = (if even (i + j) then 1 else - 1)"


definition flat :: params where
  "flat = \<lparr>S0 = 100, K = 90, T = 1, r = 0, sigma = 0, num_simulations = 2, num_steps = 2\<rparr>"


definition neg_horizon :: params where
  "neg_horizon = \<lparr>S0 = 1, K = 265, T = - 1, r = 0, sigma = 0, num_simulations = 1, num_steps = 1\<rparr>"



definition four_paths :: params where
  "four_paths = aapl\<lparr>num_simulations := 4\<rparr>"

section \<open>Properties\<close>

subsection \<open>Sums, payoffs and prices of finite terminal prices\<close>

lemma np_sum_Fin: "np_sum (map Fin xs) = Fin (sum_list xs)"
  by (induction xs) simp_all

lemma payoffs_Fin: "payoffs p (map Fin xs) = map Fin (map (\<lambda>s. max (s - K p) 0) xs)"
  by (simp add: payoffs_def fsub_def)

lemma count_gt_Fin: "count_gt (map Fin xs) k = length (filter (\<lambda>s. k < s) xs)"
  by (simp add: count_gt_def filter_map comp_def)

lemma option_price_Fin:
  "option_price p (map Fin xs) =
     (if xs = [] then NaN
      else Fin (sum_list (map (\<lambda>s. max (s - K p) 0) xs) / real (length xs) * exp (- r p * T p)))"
  by (simp add: option_price_def np_mean_def payoffs_Fin np_sum_Fin del: map_map)



subsection \<open>The loop invariant\<close>

text \<open>After the steps \<open>1, \<dots>, k\<close> the matrix is \<open>paths_upto \<dots> k\<close>: every row \<open>i\<close> holds
  \<open>fpath p d (\<omega> i) t\<close> in the columns \<open>t \<le> k\<close> and zero in the others.\<close>

lemma path_loop_snoc:
  "path_loop p d Z (ts @ [t]) S = path_step p d Z (path_loop p d Z ts S) t"
  by (induction ts arbitrary: S) simp_all

lemma init_paths_upto:
  assumes "0 \<le> num_steps p"
  shows "init_paths p = paths_upto p d \<omega> (nat (num_simulations p)) (nat (num_steps p + 1)) 0"
proof -
  let ?m = "nat (num_steps p + 1)"
  have m: "0 < ?m" using assms by simp
  have row: "(replicate ?m (Fin 0))[0 := Fin (S0 p)] =
             map (\<lambda>t. if t \<le> 0 then fpath p d z t else Fin 0) [0..<?m]" for z
    using m by (intro nth_equalityI) (auto simp: nth_list_update)
  have "paths_upto p d \<omega> (nat (num_simulations p)) ?m 0 =
          map (\<lambda>i. (replicate ?m (Fin 0))[0 := Fin (S0 p)]) [0..<nat (num_simulations p)]"
    unfolding paths_upto_def by (simp only: row[symmetric])
  then show ?thesis
    unfolding init_paths_def set_col_scalar_def np_zeros_def
    by (simp add: map_replicate_const)
qed

lemma path_step_paths_upto:
  assumes k: "Suc k < m" and Z: "Z = map (\<lambda>i. map (\<lambda>j. \<omega> i j) [0..<m - 1]) [0..<n]"
  shows "path_step p d Z (paths_upto p d \<omega> n m k) (Suc k) = paths_upto p d \<omega> n m (Suc k)"
proof -
  have cz: "col Z k = map (\<lambda>i. \<omega> i k) [0..<n]"
    using k by (simp add: col_def Z)
  have cs: "col (paths_upto p d \<omega> n m k) k = map (\<lambda>i. fpath p d (\<omega> i) k) [0..<n]"
    using k by (simp add: col_def paths_upto_def)
  have row: "(map (\<lambda>t. if t \<le> k then fpath p d z t else Fin 0) [0..<m])[Suc k := fpath p d z (Suc k)]
             = map (\<lambda>t. if t \<le> Suc k then fpath p d z t else Fin 0) [0..<m]" for z
    using k by (intro nth_equalityI) (auto simp: nth_list_update le_Suc_eq)
  have zipsame: "zip (map f xs) (map g xs) = map (\<lambda>x. (f x, g x)) xs" for f :: "nat \<Rightarrow> 'a" and g :: "nat \<Rightarrow> 'b" and xs
    by (induction xs) simp_all
  have "path_step p d Z (paths_upto p d \<omega> n m k) (Suc k) =
          map (\<lambda>i. (map (\<lambda>t. if t \<le> k then fpath p d (\<omega> i) t else Fin 0) [0..<m])
                      [Suc k := fpath p d (\<omega> i) (Suc k)]) [0..<n]"
    unfolding path_step_def Let_def
    apply (simp only: diff_Suc_1 cz cs)
    apply (simp only: set_col_def paths_upto_def map_map zipsame comp_def split_conv fpath.simps)
    done
  then show ?thesis
    unfolding paths_upto_def by (simp only: row)
qed

lemma path_loop_paths_upto:
  assumes "k < m" and Z: "Z = map (\<lambda>i. map (\<lambda>j. \<omega> i j) [0..<m - 1]) [0..<n]"
  shows "path_loop p d Z [1..<Suc k] (paths_upto p d \<omega> n m 0) = paths_upto p d \<omega> n m k"
  using assms(1)
proof (induction k)
  case 0
  then show ?case by simp
next
  case (Suc k)
  have split: "[1..<Suc (Suc k)] = [1..<Suc k] @ [Suc k]" by simp
  have IH: "path_loop p d Z [1..<Suc k] (paths_upto p d \<omega> n m 0) = paths_upto p d \<omega> n m k"
    using Suc by simp
  show ?case
    unfolding split path_loop_snoc IH
    by (rule path_step_paths_upto[OF Suc.prems Z])
qed

lemma standard_normal_nth:
  "standard_normal \<omega> n m = Inr Z \<Longrightarrow> i < nat n \<Longrightarrow> j < nat m \<Longrightarrow> Z ! i ! j = \<omega> i j"
  by (auto simp: standard_normal_def split: if_splits)

lemma standard_normal_ok:
  "0 \<le> n \<Longrightarrow> 0 \<le> m \<Longrightarrow> \<exists>Z. standard_normal \<omega> n m = Inr Z"
  by (simp add: standard_normal_def)


lemma loop_state:
  assumes "1 \<le> num_steps p" "0 \<le> num_simulations p" "k \<le> nat (num_steps p)"
    and "standard_normal \<omega> (num_simulations p) (num_steps p) = Inr Z"
  shows "path_loop p d Z [1..<Suc k] (init_paths p) =
           paths_upto p d \<omega> (nat (num_simulations p)) (nat (num_steps p + 1)) k"
proof -
  let ?m = "nat (num_steps p + 1)" and ?n = "nat (num_simulations p)"
  have m1: "?m - 1 = nat (num_steps p)" using assms(1) by simp
  have lt: "k < ?m" using assms(1,3) by simp
  have Z: "Z = map (\<lambda>i. map (\<lambda>j. \<omega> i j) [0..<?m - 1]) [0..<?n]"
    using assms(1,2,4) by (simp only: m1) (simp add: standard_normal_def)
  have "init_paths p = paths_upto p d \<omega> ?n ?m 0"
    using assms(1) by (intro init_paths_upto) simp
  then show ?thesis
    using path_loop_paths_upto[OF lt Z, of p d] by simp
qed

lemma simulate_closed:
  assumes "1 \<le> num_steps p" "0 \<le> num_simulations p"
  shows "simulate p \<omega> =
           Inr (paths_upto p (T p / real_of_int (num_steps p)) \<omega>
                  (nat (num_simulations p)) (nat (num_steps p + 1)) (nat (num_steps p)))"
proof -
  let ?m = "nat (num_steps p + 1)" and ?n = "nat (num_simulations p)"
  let ?d = "T p / real_of_int (num_steps p)"
  have m1: "?m - 1 = nat (num_steps p)" using assms by simp
  have S: "Suc (nat (num_steps p)) = ?m" using assms by simp
  have lt: "nat (num_steps p) < ?m" using assms by simp
  have "path_loop p ?d (map (\<lambda>i. map (\<lambda>j. \<omega> i j) [0..<?m - 1]) [0..<?n]) [1..<Suc (nat (num_steps p))]
          (paths_upto p ?d \<omega> ?n ?m 0) = paths_upto p ?d \<omega> ?n ?m (nat (num_steps p))"
    by (rule path_loop_paths_upto[OF lt refl])
  moreover have "init_paths p = paths_upto p ?d \<omega> ?n ?m 0"
    using assms by (intro init_paths_upto) simp
  moreover have "dt p = Inr ?d"
    using assms by (simp add: dt_def)
  moreover have "standard_normal \<omega> (num_simulations p) (num_steps p) =
                   Inr (map (\<lambda>i. map (\<lambda>j. \<omega> i j) [0..<?m - 1]) [0..<?n])"
    using assms by (simp only: m1) (simp add: standard_normal_def)
  ultimately show ?thesis
    unfolding simulate_def by (simp only: sum.case S)
qed

lemma run_ok:
  assumes "1 \<le> num_steps p" "0 \<le> num_simulations p"
  shows "run p \<omega> =
     Inr \<lparr>out_S = paths_upto p (T p / real_of_int (num_steps p)) \<omega>
                    (nat (num_simulations p)) (nat (num_steps p + 1)) (nat (num_steps p)),
          out_option_price = option_price p (terminal (paths_upto p (T p / real_of_int (num_steps p)) \<omega>
                    (nat (num_simulations p)) (nat (num_steps p + 1)) (nat (num_steps p)))),
          out_prob_profit = prob_profit p (terminal (paths_upto p (T p / real_of_int (num_steps p)) \<omega>
                    (nat (num_simulations p)) (nat (num_steps p + 1)) (nat (num_steps p)))),
          out_prob_loss = prob_loss p (terminal (paths_upto p (T p / real_of_int (num_steps p)) \<omega>
                    (nat (num_simulations p)) (nat (num_steps p + 1)) (nat (num_steps p))))\<rparr>"
  by (simp add: run_def simulate_closed[OF assms])

subsection \<open>Entries of the simulated matrix\<close>

lemma paths_upto_nth:
  "i < n \<Longrightarrow> t < m \<Longrightarrow>
   paths_upto p d \<omega> n m k ! i ! t = (if t \<le> k then fpath p d (\<omega> i) t else Fin 0)"
  by (simp add: paths_upto_def)

lemma paths_upto_length: "length (paths_upto p d \<omega> n m k) = n"
  by (simp add: paths_upto_def)



lemma terminal_paths_upto:
  "terminal (paths_upto p d \<omega> n (Suc k) k) = map (\<lambda>i. fpath p d (\<omega> i) k) [0..<n]"
  by (simp add: terminal_def paths_upto_def del: upt_Suc)

lemma fpath_Fin: "0 \<le> d \<Longrightarrow> fpath p d z t = Fin (gbm_path p d z t)"
  by (induction t) (simp_all add: np_sqrt_def)






lemma fmul_NaN_right: "fmul x NaN = NaN"
  by (cases x) simp_all

lemma fpath_negative_step: "d < 0 \<Longrightarrow> fpath p d z (Suc t) = NaN"
  by (simp add: np_sqrt_def fmul_NaN_right)

lemma np_sum_NaN: "0 < n \<Longrightarrow> np_sum (replicate n NaN) = NaN"
  by (cases n) simp_all

lemma option_price_NaN: "0 < n \<Longrightarrow> option_price p (replicate n NaN) = NaN"
  by (simp add: option_price_def payoffs_def np_mean_def fsub_def np_sum_NaN)

subsection \<open>The path simulator\<close>

text \<open>C1: for every path \<open>i\<close> and every step \<open>t\<close> from 1 to \<open>M\<close>, the simulator sets
  \<open>S[i, t] = S[i, t-1] * exp ((r - sigma\<^sup>2 / 2) * dt + sigma * sqrt dt * Z[i, t-1])\<close> with
  \<open>dt = T / M\<close>: the exact solution of the motion over the step, the exponential of the
  increment and not a first-order update. Stated for at least one step, no negative number of
  paths and a horizon that is not negative, where \<open>sqrt dt\<close> is a number.\<close>

theorem simulate_is_exact_gbm_step:
  assumes "1 \<le> num_steps p" "0 \<le> num_simulations p" "0 \<le> T p"
  shows "\<exists>Z S. standard_normal \<omega> (num_simulations p) (num_steps p) = Inr Z \<and>
           simulate p \<omega> = Inr S \<and>
           (\<forall>i < nat (num_simulations p). \<forall>t. 1 \<le> t \<and> t \<le> nat (num_steps p) \<longrightarrow>
              (\<exists>a. S ! i ! (t - 1) = Fin a \<and>
                   S ! i ! t =
                     Fin (a * exp ((r p - 0.5 * (sigma p)\<^sup>2) * (T p / real_of_int (num_steps p))
                                   + sigma p * sqrt (T p / real_of_int (num_steps p)) * (Z ! i ! (t - 1))))))"
proof -
  let ?d = "T p / real_of_int (num_steps p)"
  let ?n = "nat (num_simulations p)" and ?m = "nat (num_steps p + 1)"
  let ?S = "paths_upto p ?d \<omega> ?n ?m (nat (num_steps p))"
  have d: "0 \<le> ?d" using assms by simp
  obtain Z where Z: "standard_normal \<omega> (num_simulations p) (num_steps p) = Inr Z"
    using standard_normal_ok[of "num_simulations p" "num_steps p" \<omega>] assms by auto
  have S: "simulate p \<omega> = Inr ?S" by (rule simulate_closed[OF assms(1,2)])
  have "\<exists>a. ?S ! i ! (t - 1) = Fin a \<and>
            ?S ! i ! t = Fin (a * exp ((r p - 0.5 * (sigma p)\<^sup>2) * ?d + sigma p * sqrt ?d * (Z ! i ! (t - 1))))"
    if i: "i < ?n" and t: "1 \<le> t" "t \<le> nat (num_steps p)" for i t
  proof -
    obtain u where u: "t = Suc u" using t by (cases t) auto
    have ulim: "u < nat (num_steps p)" using t u by simp
    have zz: "Z ! i ! u = \<omega> i u" using standard_normal_nth[OF Z i ulim] .
    have "?S ! i ! u = Fin (gbm_path p ?d (\<omega> i) u)"
      using i t u assms(1) by (simp add: paths_upto_nth fpath_Fin[OF d])
    moreover have "?S ! i ! Suc u = Fin (gbm_path p ?d (\<omega> i) (Suc u))"
      using i t u assms(1) by (simp only: fpath_Fin[OF d, symmetric]) (simp add: paths_upto_nth)
    ultimately show ?thesis
      unfolding u by (simp add: zz)
  qed
  then show ?thesis using Z S by blast
qed

theorem simulate_is_exact_gbm_step_witness:
  "1 \<le> num_steps aapl \<and> 0 \<le> num_simulations aapl \<and> 0 \<le> T aapl \<and>
   (\<exists>Z S. standard_normal unit_shocks 10000 252 = Inr Z \<and> simulate aapl unit_shocks = Inr S \<and>
      (\<exists>a. S ! 0 ! 0 = Fin a \<and>
           S ! 0 ! 1 = Fin (a * exp ((0.041 - 0.5 * 0.28\<^sup>2) * (1 / 252) + 0.28 * sqrt (1 / 252) * (Z ! 0 ! 0)))))"
proof -
  have h: "1 \<le> num_steps aapl" "0 \<le> num_simulations aapl" "0 \<le> T aapl"
    by (simp_all add: aapl_def)
  from simulate_is_exact_gbm_step [OF h, of unit_shocks]
  obtain Z S where Z: "standard_normal unit_shocks (num_simulations aapl) (num_steps aapl) = Inr Z"
    and S: "simulate aapl unit_shocks = Inr S"
    and step: "\<forall>i < nat (num_simulations aapl). \<forall>t. 1 \<le> t \<and> t \<le> nat (num_steps aapl) \<longrightarrow>
              (\<exists>a. S ! i ! (t - 1) = Fin a \<and>
                   S ! i ! t =
                     Fin (a * exp ((r aapl - 0.5 * (sigma aapl)\<^sup>2) * (T aapl / real_of_int (num_steps aapl))
                                   + sigma aapl * sqrt (T aapl / real_of_int (num_steps aapl)) * (Z ! i ! (t - 1)))))"
    by blast
  have "0 < nat (num_simulations aapl)" "(1::nat) \<le> 1 \<and> 1 \<le> nat (num_steps aapl)"
    by (simp_all add: aapl_def)
  with step have "\<exists>a. S ! 0 ! (1 - 1) = Fin a \<and>
                   S ! 0 ! 1 =
                     Fin (a * exp ((r aapl - 0.5 * (sigma aapl)\<^sup>2) * (T aapl / real_of_int (num_steps aapl))
                                   + sigma aapl * sqrt (T aapl / real_of_int (num_steps aapl)) * (Z ! 0 ! (1 - 1))))"
    by blast
  then have "\<exists>a. S ! 0 ! 0 = Fin a \<and>
           S ! 0 ! 1 = Fin (a * exp ((0.041 - 0.5 * 0.28\<^sup>2) * (1 / 252) + 0.28 * sqrt (1 / 252) * (Z ! 0 ! 0)))"
    by (simp add: aapl_def)
  moreover have "standard_normal unit_shocks 10000 252 = Inr Z"
    using Z by (simp add: aapl_def)
  ultimately show ?thesis using h S by blast
qed



text \<open>C7: column 0 of the matrix is \<open>S0\<close> for every path, in the matrix returned and after
  every number \<open>k\<close> of update steps.\<close>

theorem first_column_is_S0:
  assumes "1 \<le> num_steps p" "0 \<le> num_simulations p"
  shows "\<exists>Z S. standard_normal \<omega> (num_simulations p) (num_steps p) = Inr Z \<and>
           simulate p \<omega> = Inr S \<and>
           length S = nat (num_simulations p) \<and>
           (\<forall>i < nat (num_simulations p). S ! i ! 0 = Fin (S0 p)) \<and>
           (\<forall>k \<le> nat (num_steps p). \<forall>i < nat (num_simulations p).
              path_loop p (T p / real_of_int (num_steps p)) Z [1..<Suc k] (init_paths p) ! i ! 0 = Fin (S0 p))"
proof -
  let ?d = "T p / real_of_int (num_steps p)"
  let ?n = "nat (num_simulations p)" and ?m = "nat (num_steps p + 1)"
  let ?S = "paths_upto p ?d \<omega> ?n ?m (nat (num_steps p))"
  have m: "0 < ?m" using assms(1) by simp
  obtain Z where Z: "standard_normal \<omega> (num_simulations p) (num_steps p) = Inr Z"
    using standard_normal_ok[of "num_simulations p" "num_steps p" \<omega>] assms by auto
  have S: "simulate p \<omega> = Inr ?S" by (rule simulate_closed[OF assms])
  have fin: "\<forall>i < ?n. ?S ! i ! 0 = Fin (S0 p)"
    using m by (simp add: paths_upto_nth)
  have inv: "path_loop p ?d Z [1..<Suc k] (init_paths p) ! i ! 0 = Fin (S0 p)"
    if "k \<le> nat (num_steps p)" "i < ?n" for k i
  proof -
    have "path_loop p ?d Z [1..<Suc k] (init_paths p) = paths_upto p ?d \<omega> ?n ?m k"
      by (rule loop_state[OF assms that(1) Z])
    then show ?thesis using that m by (simp add: paths_upto_nth)
  qed
  show ?thesis
    using Z S fin inv by (intro exI[of _ Z] exI[of _ ?S]) (simp add: paths_upto_length)
qed

theorem first_column_is_S0_witness:
  "1 \<le> num_steps aapl \<and> 0 \<le> num_simulations aapl \<and>
   (\<exists>S. simulate aapl unit_shocks = Inr S \<and> S ! 0 ! 0 = Fin 255.78 \<and> S ! 9999 ! 0 = Fin 255.78)"
proof -
  have h: "1 \<le> num_steps aapl" "0 \<le> num_simulations aapl"
    by (simp_all add: aapl_def)
  from first_column_is_S0 [OF h, of unit_shocks]
  obtain S where S: "simulate aapl unit_shocks = Inr S"
    and c: "\<forall>i < nat (num_simulations aapl). S ! i ! 0 = Fin (S0 aapl)"
    by blast
  have "(0::nat) < nat (num_simulations aapl)" "(9999::nat) < nat (num_simulations aapl)"
    by (simp_all add: aapl_def)
  with c have "S ! 0 ! 0 = Fin (S0 aapl)" "S ! 9999 ! 0 = Fin (S0 aapl)" by blast+
  then have "S ! 0 ! 0 = Fin 255.78" "S ! 9999 ! 0 = Fin 255.78" by (simp_all add: aapl_def)
  then show ?thesis using h S by blast
qed



subsection \<open>The payoff evaluator\<close>

text \<open>C8: the payoff of each path is \<open>max (terminal price - K) 0\<close>, so every payoff is a
  number that is at least 0, for every vector of terminal prices and every strike.\<close>

theorem payoff_is_call_payoff:
  "payoffs p (map Fin xs) = map (\<lambda>s. Fin (max (s - K p) 0)) xs \<and>
   (\<forall>y \<in> set (payoffs p (map Fin xs)). \<exists>a. y = Fin a \<and> 0 \<le> a)"
  by (auto simp: payoffs_def fsub_def)

theorem payoff_is_call_payoff_witness:
  "payoffs aapl (map Fin [300, 265, 200]) = [Fin 35, Fin 0, Fin 0] \<and>
   (\<exists>a. payoffs aapl (map Fin [300, 265, 200]) ! 0 = Fin a \<and> 0 \<le> a)"
  using payoff_is_call_payoff [of aapl "[300, 265, 200]"] by (simp add: aapl_def)

text \<open>C2: the option price is the arithmetic mean of the payoffs times \<open>exp (- r T)\<close>, for
  every vector of terminal prices and all \<open>r\<close>, \<open>T\<close>. An empty vector has no mean, and the
  price is then not-a-number.\<close>

theorem option_price_is_discounted_mean:
  "option_price p (map Fin xs) =
     (if xs = [] then NaN
      else Fin (sum_list (map (\<lambda>s. max (s - K p) 0) xs) / real (length xs) * exp (- r p * T p)))"
  by (rule option_price_Fin)

theorem option_price_is_discounted_mean_witness:
  "option_price aapl (map Fin [300, 265, 200, 275]) = Fin (45 / 4 * exp (- 0.041 * 1.0))"
  using option_price_is_discounted_mean [of aapl "[300, 265, 200, 275]"] by (simp add: aapl_def)

text \<open>C5: the probability of profit is the number of terminal prices strictly above \<open>K\<close>,
  divided by \<open>N\<close>, times 100; the probability of loss is 100 minus it; the two add up to
  100. Here \<open>N\<close> is \<open>num_simulations\<close>, not zero.\<close>

theorem profit_and_loss_probabilities:
  assumes "num_simulations p \<noteq> 0"
  shows "prob_profit p (map Fin xs) =
           Fin (real (length (filter (\<lambda>s. K p < s) xs)) / real_of_int (num_simulations p) * 100) \<and>
         prob_loss p (map Fin xs) =
           Fin (100 - real (length (filter (\<lambda>s. K p < s) xs)) / real_of_int (num_simulations p) * 100) \<and>
         fadd (prob_profit p (map Fin xs)) (prob_loss p (map Fin xs)) = Fin 100"
  using assms by (simp add: prob_profit_def prob_loss_def count_gt_Fin fsub_def)

theorem profit_and_loss_probabilities_witness:
  "num_simulations four_paths \<noteq> 0 \<and>
   prob_profit four_paths (map Fin [300, 265, 200, 275]) = Fin 50 \<and>
   prob_loss four_paths (map Fin [300, 265, 200, 275]) = Fin 50 \<and>
   fadd (prob_profit four_paths (map Fin [300, 265, 200, 275]))
        (prob_loss four_paths (map Fin [300, 265, 200, 275])) = Fin 100"
  using profit_and_loss_probabilities [of four_paths "[300, 265, 200, 275]"]
  by (simp add: four_paths_def aapl_def)



subsection \<open>Degenerate and invalid parameters\<close>






text \<open>X1: with a negative horizon and at least one step and one path the script raises
  nothing: \<open>sqrt dt\<close> is not-a-number, and so are every terminal price and the option
  price.\<close>

theorem negative_horizon_yields_nan:
  assumes "1 \<le> num_steps p" "1 \<le> num_simulations p" "T p < 0"
  shows "\<exists>res. run p \<omega> = Inr res \<and>
           terminal (out_S res) = replicate (nat (num_simulations p)) NaN \<and>
           out_option_price res = NaN"
proof -
  let ?d = "T p / real_of_int (num_steps p)"
  let ?n = "nat (num_simulations p)" and ?m = "nat (num_steps p + 1)"
  let ?S = "paths_upto p ?d \<omega> ?n ?m (nat (num_steps p))"
  have n: "0 \<le> num_simulations p" "0 < ?n" using assms(2) by simp_all
  have d: "?d < 0" using assms(1,3) by (simp add: divide_neg_pos)
  obtain u where u: "nat (num_steps p) = Suc u" using assms(1) by (cases "nat (num_steps p)") auto
  have m: "?m = Suc (nat (num_steps p))" using assms(1) by simp
  have "terminal ?S = map (\<lambda>i. fpath p ?d (\<omega> i) (nat (num_steps p))) [0..<?n]"
    by (simp only: m terminal_paths_upto)
  also have "\<dots> = map (\<lambda>i. NaN) [0..<?n]"
    by (simp only: u fpath_negative_step[OF d])
  finally have tm: "terminal ?S = replicate ?n NaN"
    by (simp add: map_replicate_const)
  show ?thesis
    by (simp add: run_ok[OF assms(1) n(1)] tm option_price_NaN[OF n(2)])
qed

theorem negative_horizon_yields_nan_witness:
  "1 \<le> num_steps neg_horizon \<and> 1 \<le> num_simulations neg_horizon \<and> T neg_horizon < 0 \<and>
   (\<exists>res. run neg_horizon no_shocks = Inr res \<and> terminal (out_S res) = [NaN] \<and>
          out_option_price res = NaN)"
  using negative_horizon_yields_nan [of neg_horizon no_shocks]
  by (simp add: neg_horizon_def)

text \<open>X2: with no path at all (\<open>num_simulations = 0\<close>) the script raises nothing: the
  matrix is empty, and the price and both probabilities are not-a-number.\<close>

theorem no_paths_yields_nan:
  assumes "1 \<le> num_steps p" "num_simulations p = 0"
  shows "run p \<omega> = Inr \<lparr>out_S = [], out_option_price = NaN, out_prob_profit = NaN,
                         out_prob_loss = NaN\<rparr>"
proof -
  have n: "0 \<le> num_simulations p" using assms(2) by simp
  show ?thesis
    by (simp add: run_ok[OF assms(1) n] assms(2) paths_upto_def terminal_def option_price_def
        payoffs_def np_mean_def prob_profit_def prob_loss_def count_gt_def fsub_def)
qed

theorem no_paths_yields_nan_witness:
  "1 \<le> num_steps (flat\<lparr>num_simulations := 0\<rparr>) \<and> num_simulations (flat\<lparr>num_simulations := 0\<rparr>) = 0 \<and>
   run (flat\<lparr>num_simulations := 0\<rparr>) unit_shocks =
     Inr \<lparr>out_S = [], out_option_price = NaN, out_prob_profit = NaN, out_prob_loss = NaN\<rparr>"
  using no_paths_yields_nan [of "flat\<lparr>num_simulations := 0\<rparr>" unit_shocks]
  by (simp add: flat_def)

end
